theory Spec2Isabelle
  imports Complex_Main
begin

section \<open>Numbers\<close>

text \<open>
  The calculator of \<^verbatim>\<open>ISCalcCorrelated.cxx\<close> works on C++ \<^verbatim>\<open>double\<close>s, and none of its
  operations stops the computation: a division by zero or a logarithm of a number that is
  not positive gives an infinity or a NaN, and the computation goes on with it. A
  \<^verbatim>\<open>double\<close> is modelled as a real number or one of the three special values, with the
  arithmetic of IEEE 754 on them. Rounding, overflow, underflow, the sign of a zero (a zero
  divisor counts as positive) and the narrowing of the step length to \<^verbatim>\<open>float\<close> are not
  represented.

  What the calculator is given (the deposit, the configured parameters, the answers of the
  providers) is finite and has type \<^typ>\<open>real\<close>; what it computes has type \<open>double\<close>.
\<close>

datatype double = Fin real | PInf | NInf | NaN

fun dneg :: "double \<Rightarrow> double" where
  "dneg (Fin x) = Fin (- x)"
| "dneg PInf = NInf"
| "dneg NInf = PInf"
| "dneg NaN = NaN"

fun dadd :: "double \<Rightarrow> double \<Rightarrow> double" where
  "dadd (Fin x) (Fin y) = Fin (x + y)"
| "dadd (Fin x) PInf = PInf"
| "dadd (Fin x) NInf = NInf"
| "dadd PInf (Fin y) = PInf"
| "dadd PInf PInf = PInf"
| "dadd PInf NInf = NaN"
| "dadd NInf (Fin y) = NInf"
| "dadd NInf PInf = NaN"
| "dadd NInf NInf = NInf"
| "dadd NaN y = NaN"
| "dadd x NaN = NaN"

definition dsub :: "double \<Rightarrow> double \<Rightarrow> double" where
  "dsub x y = dadd x (dneg y)"

fun dmul :: "double \<Rightarrow> double \<Rightarrow> double" where
  "dmul (Fin x) (Fin y) = Fin (x * y)"
| "dmul (Fin x) PInf = (if x = 0 then NaN else if 0 < x then PInf else NInf)"
| "dmul (Fin x) NInf = (if x = 0 then NaN else if 0 < x then NInf else PInf)"
| "dmul PInf (Fin y) = (if y = 0 then NaN else if 0 < y then PInf else NInf)"
| "dmul NInf (Fin y) = (if y = 0 then NaN else if 0 < y then NInf else PInf)"
| "dmul PInf PInf = PInf"
| "dmul PInf NInf = NInf"
| "dmul NInf PInf = NInf"
| "dmul NInf NInf = PInf"
| "dmul NaN y = NaN"
| "dmul x NaN = NaN"

text \<open>
  Division: a finite number over zero is an infinity of its sign, zero over zero is NaN, a
  finite number over an infinity is zero, an infinity over an infinity is NaN.
\<close>

fun ddiv :: "double \<Rightarrow> double \<Rightarrow> double" where
  "ddiv (Fin x) (Fin y) =
     (if y = 0 then (if x = 0 then NaN else if 0 < x then PInf else NInf) else Fin (x / y))"
| "ddiv (Fin x) PInf = Fin 0"
| "ddiv (Fin x) NInf = Fin 0"
| "ddiv PInf (Fin y) = (if 0 \<le> y then PInf else NInf)"
| "ddiv NInf (Fin y) = (if 0 \<le> y then NInf else PInf)"
| "ddiv PInf PInf = NaN"
| "ddiv PInf NInf = NaN"
| "ddiv NInf PInf = NaN"
| "ddiv NInf NInf = NaN"
| "ddiv NaN y = NaN"
| "ddiv x NaN = NaN"

text \<open>\<^verbatim>\<open>log\<close> and \<^verbatim>\<open>exp\<close> of the C library.\<close>

fun dlog :: "double \<Rightarrow> double" where
  "dlog (Fin x) = (if 0 < x then Fin (ln x) else if x = 0 then NInf else NaN)"
| "dlog PInf = PInf"
| "dlog NInf = NaN"
| "dlog NaN = NaN"

fun dexp :: "double \<Rightarrow> double" where
  "dexp (Fin x) = Fin (exp x)"
| "dexp PInf = PInf"
| "dexp NInf = Fin 0"
| "dexp NaN = NaN"

text \<open>The comparison \<^verbatim>\<open><\<close> of two doubles: false as soon as one of them is NaN.\<close>

fun dless :: "double \<Rightarrow> double \<Rightarrow> bool" where
  "dless (Fin x) (Fin y) = (x < y)"
| "dless (Fin x) PInf = True"
| "dless NInf (Fin y) = True"
| "dless NInf PInf = True"
| "dless x y = False"

text \<open>
  \<^verbatim>\<open>std::hypot(x, y, z)\<close> on finite numbers: the Euclidean norm of a vector of three
  components.
\<close>

definition hypot3 :: "real \<Rightarrow> real \<Rightarrow> real \<Rightarrow> real" where
  "hypot3 x y z = sqrt (x\<^sup>2 + y\<^sup>2 + z\<^sup>2)"


section \<open>Data model\<close>

text \<open>A point or a vector of three coordinates (\<^verbatim>\<open>geo::Point_t\<close>, \<^verbatim>\<open>geo::Vector_t\<close>).\<close>

record Vector3 =
  X :: real
  Y :: real
  Z :: real

text \<open>
  What the calculator reads of a \<^verbatim>\<open>sim::SimEnergyDeposit\<close>. The step length is the
  value the calculator holds in \<^verbatim>\<open>ds\<close>; nothing in the calculator keeps it from being
  negative.
\<close>

record SimEnergyDeposit =
  Energy :: real
  StepLength :: real
  MidPoint :: Vector3
  PdgCode :: int

text \<open>The providers the calculator consults; their declarations are outside this file.\<close>

record LArProperties =
  ScintPreScale :: real
  ScintByParticleType :: bool
  ScintYieldRatio :: real
  ProtonScintYieldRatio :: real
  MuonScintYieldRatio :: real
  PionScintYieldRatio :: real
  KaonScintYieldRatio :: real
  AlphaScintYieldRatio :: real
  ElectronScintYieldRatio :: real

record SpaceCharge =
  EnableSimEfieldSCE :: bool
  GetEfieldOffsets :: "Vector3 \<Rightarrow> Vector3"

record LArG4Parameters =
  RecombA :: real
  Recombk :: real
  ModBoxA :: real
  ModBoxB :: real
  UseModBoxRecomb :: bool
  UseModLarqlRecomb :: bool
  LarqlChi0A :: real
  LarqlChi0B :: real
  LarqlChi0C :: real
  LarqlChi0D :: real
  LarqlAlpha :: real
  LarqlBeta :: real
  GeVToElectrons :: real

record DetectorPropertiesData =
  Efield :: real
  Temperature :: real
  Density :: "real \<Rightarrow> real"

text \<open>The members of the class \<^verbatim>\<open>ISCalcCorrelated\<close>.\<close>

record ISCalcCorrelated =
  fSCE :: SpaceCharge
  fLArProp :: LArProperties
  fScintPreScale :: double
  fRecombA :: double
  fRecombk :: double
  fModBoxA :: double
  fModBoxB :: double
  fUseModBoxRecomb :: bool
  fUseModLarqlRecomb :: bool
  fLarqlChi0A :: double
  fLarqlChi0B :: double
  fLarqlChi0C :: double
  fLarqlChi0D :: double
  fLarqlAlpha :: double
  fLarqlBeta :: double
  fGeVToElectrons :: double
  fWion :: double
  fWph :: double

text \<open>The value returned by \<^verbatim>\<open>CalcIonAndScint\<close>.\<close>

record ISCalcData =
  energy_deposit :: double
  numElectrons :: double
  numPhotons :: double
  scintillationYieldRatio :: double


section \<open>The calculator\<close>

text \<open>
  The constructor (lines 21--51). The providers, which the source takes from the framework's
  services, are arguments here. The messages that the constructor and the calculator write
  to the log are left out.
\<close>

definition ISCalcCorrelated_new ::
  "SpaceCharge \<Rightarrow> LArProperties \<Rightarrow> LArG4Parameters \<Rightarrow> DetectorPropertiesData
     \<Rightarrow> ISCalcCorrelated" where
  "ISCalcCorrelated_new sce larp g4 detProp =
     \<lparr> fSCE = sce,
       fLArProp = larp,
       fScintPreScale = Fin (ScintPreScale larp),
       fRecombA = Fin (RecombA g4),
       fRecombk = ddiv (Fin (Recombk g4)) (Fin (Density detProp (Temperature detProp))),
       fModBoxA = Fin (ModBoxA g4),
       fModBoxB = ddiv (Fin (ModBoxB g4)) (Fin (Density detProp (Temperature detProp))),
       fUseModBoxRecomb = UseModBoxRecomb g4,
       fUseModLarqlRecomb = UseModLarqlRecomb g4,
       fLarqlChi0A = Fin (LarqlChi0A g4),
       fLarqlChi0B = Fin (LarqlChi0B g4),
       fLarqlChi0C = Fin (LarqlChi0C g4),
       fLarqlChi0D = Fin (LarqlChi0D g4),
       fLarqlAlpha = Fin (LarqlAlpha g4),
       fLarqlBeta = Fin (LarqlBeta g4),
       fGeVToElectrons = Fin (GeVToElectrons g4),
       fWion = dmul (ddiv (Fin 1) (Fin (GeVToElectrons g4))) (Fin (10 ^ 3)),
       fWph = Fin (19.5 * (1 / 10 ^ 6)) \<rparr>"

text \<open>\<^verbatim>\<open>GetScintYieldRatio\<close> (lines 104--130): the switch on the PDG code, in its order.\<close>

definition GetScintYieldRatio :: "ISCalcCorrelated \<Rightarrow> SimEnergyDeposit \<Rightarrow> real" where
  "GetScintYieldRatio c edep =
     (if \<not> ScintByParticleType (fLArProp c) then ScintYieldRatio (fLArProp c)
      else let pdg = PdgCode edep in
        if pdg = 2212 then ProtonScintYieldRatio (fLArProp c)
        else if pdg = 13 \<or> pdg = - 13 then MuonScintYieldRatio (fLArProp c)
        else if pdg = 211 \<or> pdg = - 211 then PionScintYieldRatio (fLArProp c)
        else if pdg = 321 \<or> pdg = - 321 then KaonScintYieldRatio (fLArProp c)
        else if pdg = 1000020040 then AlphaScintYieldRatio (fLArProp c)
        else if pdg = 11 \<or> pdg = - 11 \<or> pdg = 22 then ElectronScintYieldRatio (fLArProp c)
        else ElectronScintYieldRatio (fLArProp c))"

text \<open>
  \<^verbatim>\<open>EFieldAtStep\<close> (lines 133--139). The ambient field and the offsets are finite, and so
  is the result.
\<close>

definition EFieldAtStep :: "ISCalcCorrelated \<Rightarrow> real \<Rightarrow> SimEnergyDeposit \<Rightarrow> real" where
  "EFieldAtStep c efield edep =
     (if \<not> EnableSimEfieldSCE (fSCE c) then efield
      else let eFieldOffsets = GetEfieldOffsets (fSCE c) (MidPoint edep)
           in efield * hypot3 (1 + X eFieldOffsets) (Y eFieldOffsets) (Z eFieldOffsets))"

text \<open>\<^verbatim>\<open>EscapingEFraction\<close> (lines 141--143), the LArQL function chi0.\<close>

definition EscapingEFraction :: "ISCalcCorrelated \<Rightarrow> double \<Rightarrow> double" where
  "EscapingEFraction c dEdx =
     ddiv (fLarqlChi0A c)
       (dadd (fLarqlChi0B c) (dexp (dadd (fLarqlChi0C c) (dmul (fLarqlChi0D c) dEdx))))"

text \<open>\<^verbatim>\<open>FieldCorrection\<close> (lines 145--147), the LArQL function f\_corr.\<close>

definition FieldCorrection :: "ISCalcCorrelated \<Rightarrow> double \<Rightarrow> double \<Rightarrow> double" where
  "FieldCorrection c EF dEdx =
     dexp (ddiv (dneg EF) (dadd (dmul (fLarqlAlpha c) (dlog dEdx)) (fLarqlBeta c)))"

text \<open>
  \<^verbatim>\<open>CalcIonAndScint\<close> (lines 54--101) in three parts. First the energy loss per length
  of lines 64 and 69: zero when the step length is not positive, then raised to 1. The
  division is reached with a positive step length only, so the value is finite.
\<close>

definition StepdEdx :: "real \<Rightarrow> real \<Rightarrow> real" where
  "StepdEdx energy ds =
     (let dEdx = (if ds \<le> 0 then 0 else energy / ds)
      in if dEdx < 1 then 1 else dEdx)"

text \<open>
  The recombination survival fraction \<^verbatim>\<open>recomb\<close> of lines 66 and 71--87, as a function of
  the step length, the energy loss per length and the field at the step.
\<close>

definition Recombination :: "ISCalcCorrelated \<Rightarrow> real \<Rightarrow> double \<Rightarrow> double \<Rightarrow> double" where
  "Recombination c ds dEdx EFieldStep =
     (let recomb =
        (if fUseModBoxRecomb c then
           (if ds > 0 then
              (let Xi = ddiv (dmul (fModBoxB c) dEdx) EFieldStep
               in ddiv (dlog (dadd (fModBoxA c) Xi)) Xi)
            else Fin 0)
         else
           ddiv (fRecombA c) (dadd (Fin 1) (ddiv (dmul dEdx (fRecombk c)) EFieldStep)))
      in if fUseModLarqlRecomb c then
           dadd recomb (dmul (EscapingEFraction c dEdx) (FieldCorrection c EFieldStep dEdx))
         else recomb)"

definition CalcIonAndScint ::
  "ISCalcCorrelated \<Rightarrow> DetectorPropertiesData \<Rightarrow> SimEnergyDeposit \<Rightarrow> ISCalcData" where
  "CalcIonAndScint c detProp edep =
     (let energy = Fin (Energy edep);
          Nq = ddiv energy (fWph c);
          ds = StepLength edep;
          dEdx = Fin (StepdEdx (Energy edep) ds);
          EFieldStep = Fin (EFieldAtStep c (Efield detProp) edep);
          recomb = Recombination c ds dEdx EFieldStep;
          num_electrons = dmul (ddiv energy (fWion c)) recomb;
          num_photons = dmul (dsub Nq num_electrons) (fScintPreScale c)
      in \<lparr> energy_deposit = energy,
           numElectrons = num_electrons,
           numPhotons = num_photons,
           scintillationYieldRatio = Fin (GetScintYieldRatio c edep) \<rparr>)"


section \<open>Reference configuration\<close>

text \<open>
  A configuration with the constants of a liquid-argon detector, used to run the calculator
  on concrete deposits: Modified-Box recombination, no low-field correction, a field of
  0.5 kV/cm, the density of argon as a linear function of the temperature.
\<close>

definition ref_LArProperties :: LArProperties where
  "ref_LArProperties =
     \<lparr> ScintPreScale = 0.03,
       ScintByParticleType = True,
       ScintYieldRatio = 0.3,
       ProtonScintYieldRatio = 0.29,
       MuonScintYieldRatio = 0.23,
       PionScintYieldRatio = 0.24,
       KaonScintYieldRatio = 0.25,
       AlphaScintYieldRatio = 0.56,
       ElectronScintYieldRatio = 0.27 \<rparr>"

definition ref_SpaceCharge :: SpaceCharge where
  "ref_SpaceCharge =
     \<lparr> EnableSimEfieldSCE = False,
       GetEfieldOffsets = (\<lambda>p. \<lparr> X = X p / 10, Y = Y p / 10, Z = Z p / 10 \<rparr>) \<rparr>"

definition ref_LArG4Parameters :: LArG4Parameters where
  "ref_LArG4Parameters =
     \<lparr> RecombA = 0.8,
       Recombk = 0.0486,
       ModBoxA = 0.93,
       ModBoxB = 0.212,
       UseModBoxRecomb = True,
       UseModLarqlRecomb = False,
       LarqlChi0A = 1,
       LarqlChi0B = 1,
       LarqlChi0C = 0,
       LarqlChi0D = 0,
       LarqlAlpha = 1,
       LarqlBeta = 1,
       GeVToElectrons = 42370000 \<rparr>"

definition ref_DetectorProperties :: DetectorPropertiesData where
  "ref_DetectorProperties =
     \<lparr> Efield = 0.5,
       Temperature = 87,
       Density = (\<lambda>T. - 0.00615 * T + 1.928) \<rparr>"

definition ref_deposit :: SimEnergyDeposit where
  "ref_deposit =
     \<lparr> Energy = 2,
       StepLength = 1,
       MidPoint = \<lparr> X = 10, Y = 20, Z = 10 \<rparr>,
       PdgCode = 11 \<rparr>"

text \<open>
  The calculator that the constructor builds from the reference providers, for given
  space-charge settings and parameters.
\<close>

definition ref_calc :: "SpaceCharge \<Rightarrow> LArG4Parameters \<Rightarrow> ISCalcCorrelated" where
  "ref_calc sce g4 = ISCalcCorrelated_new sce ref_LArProperties g4 ref_DetectorProperties"

section \<open>Basic facts\<close>

lemmas calc_defs = GetScintYieldRatio_def EFieldAtStep_def EscapingEFraction_def
  FieldCorrection_def StepdEdx_def Recombination_def CalcIonAndScint_def dsub_def hypot3_def

lemmas ref_defs = ref_LArProperties_def ref_SpaceCharge_def ref_LArG4Parameters_def
  ref_DetectorProperties_def ref_deposit_def ISCalcCorrelated_new_def ref_calc_def

text \<open>Arithmetic with a zero: what the special cases of the operations give.\<close>

lemma dadd_zero_right: "dadd x (Fin 0) = x"
  by (cases x) simp_all

lemma dmul_zero_right: "dmul (Fin x) (Fin 0) = Fin 0"
  by simp

lemma ddiv_by_zero: "ddiv x (Fin 0) \<in> {PInf, NInf, NaN}"
  by (cases x) auto

lemma photons_negative:
  "dless (Fin q) e \<Longrightarrow> 0 < p \<Longrightarrow> dless (dmul (dsub (Fin q) e) (Fin p)) (Fin 0)"
  by (cases e) (simp_all add: dsub_def mult_neg_pos)

text \<open>What is known of a calculator that the constructor has returned.\<close>

lemma new_fields:
  assumes "c = ISCalcCorrelated_new sce larp g4 dp"
  shows "fWph c = Fin (39 / 2000000)" and "fScintPreScale c = Fin (ScintPreScale larp)"
    and "fSCE c = sce" and "fLArProp c = larp"
  using assms by (simp_all add: ISCalcCorrelated_new_def)

lemma new_per_ion:
  assumes "c = ISCalcCorrelated_new sce larp g4 dp"
  shows "ddiv (Fin e) (fWion c)
           = Fin (if GeVToElectrons g4 = 0 then 0 else e * GeVToElectrons g4 / 1000)"
  using assms by (simp add: ISCalcCorrelated_new_def)

lemma StepdEdx_ge_1: "1 \<le> StepdEdx energy ds"
  by (simp add: StepdEdx_def Let_def)

lemma StepdEdx_nonpos: "ds \<le> 0 \<Longrightarrow> StepdEdx energy ds = 1"
  by (simp add: StepdEdx_def)

lemma StepdEdx_floor: "0 < ds \<Longrightarrow> energy / ds \<le> 1 \<Longrightarrow> StepdEdx energy ds = 1"
  by (simp add: StepdEdx_def Let_def)

lemma StepdEdx_above: "0 < ds \<Longrightarrow> 1 \<le> energy / ds \<Longrightarrow> StepdEdx energy ds = energy / ds"
  by (simp add: StepdEdx_def Let_def)

lemma StepdEdx_examples:
  "StepdEdx 2 0 = 1" "StepdEdx 2 (- 1) = 1" "StepdEdx 2 4 = 1" "StepdEdx 6 2 = 3"
  by (simp_all add: StepdEdx_def)

text \<open>The recombination fraction reads the step length only through the test \<open>ds > 0\<close>.\<close>

lemma Recombination_step_sign:
  "(0 < ds) = (0 < ds') \<Longrightarrow> Recombination c ds dEdx E = Recombination c ds' dEdx E"
  by (simp add: Recombination_def)

text \<open>The low-field correction is a term added to the fraction of either model.\<close>

lemma Recombination_correction:
  "fUseModLarqlRecomb c \<Longrightarrow>
     Recombination c ds dEdx E =
       dadd (Recombination (c\<lparr>fUseModLarqlRecomb := False\<rparr>) ds dEdx E)
            (dmul (EscapingEFraction c dEdx) (FieldCorrection c E dEdx))"
  by (simp add: Recombination_def Let_def)

lemma EFieldAtStep_cong:
  "MidPoint d1 = MidPoint d2 \<Longrightarrow> EFieldAtStep c efield d1 = EFieldAtStep c efield d2"
  by (simp add: EFieldAtStep_def)

lemma CalcIonAndScint_unfold:
  "CalcIonAndScint c detProp edep =
     \<lparr> energy_deposit = Fin (Energy edep),
       numElectrons =
         dmul (ddiv (Fin (Energy edep)) (fWion c))
           (Recombination c (StepLength edep) (Fin (StepdEdx (Energy edep) (StepLength edep)))
              (Fin (EFieldAtStep c (Efield detProp) edep))),
       numPhotons =
         dmul (dsub (ddiv (Fin (Energy edep)) (fWph c))
                 (dmul (ddiv (Fin (Energy edep)) (fWion c))
                    (Recombination c (StepLength edep)
                       (Fin (StepdEdx (Energy edep) (StepLength edep)))
                       (Fin (EFieldAtStep c (Efield detProp) edep)))))
           (fScintPreScale c),
       scintillationYieldRatio = Fin (GetScintYieldRatio c edep) \<rparr>"
  by (simp add: CalcIonAndScint_def Let_def)

lemma sqrt_9: "sqrt 9 = 3"
  by (rule real_sqrt_unique) simp_all


section \<open>Zero-length steps under the Modified-Box model\<close>

text \<open>
  C1, as the specification states it, fails: with Modified-Box recombination and the
  low-field correction enabled, a deposit of 5 MeV with step length 0 in a field of
  0.5 kV/cm gets the recombination fraction \<open>exp (- 1/2) / 2\<close>, the correction term alone,
  and an electron count that is not 0.
\<close>

theorem modbox_zero_step_counterexample:
  "fUseModBoxRecomb (ref_calc ref_SpaceCharge (ref_LArG4Parameters\<lparr>UseModLarqlRecomb := True\<rparr>))
   \<and> StepLength (ref_deposit\<lparr>Energy := 5, StepLength := 0\<rparr>) = 0
   \<and> Recombination (ref_calc ref_SpaceCharge (ref_LArG4Parameters\<lparr>UseModLarqlRecomb := True\<rparr>))
        0 (Fin (StepdEdx 5 0)) (Fin (1 / 2)) = Fin (exp (- (1 / 2)) / 2)
   \<and> CalcIonAndScint (ref_calc ref_SpaceCharge (ref_LArG4Parameters\<lparr>UseModLarqlRecomb := True\<rparr>))
        ref_DetectorProperties (ref_deposit\<lparr>Energy := 5, StepLength := 0\<rparr>)
       = \<lparr> energy_deposit = Fin 5,
           numElectrons = Fin (105925 * exp (- (1 / 2))),
           numPhotons = Fin ((10000000 / 13 - 317775 * exp (- (1 / 2))) / 100),
           scintillationYieldRatio = Fin (27 / 100) \<rparr>
   \<and> 105925 * exp (- (1 / 2)) \<noteq> (0::real)"
  by (simp add: calc_defs ref_defs Let_def)

text \<open>
  C1, amended: under the Modified-Box model with the low-field correction disabled, for
  every deposit with step length 0 the recombination fraction is exactly 0, whatever the
  energy loss and the field, and the calculator returns an electron count of 0 (and all
  the quanta as photons).
\<close>

theorem modbox_zero_step_without_correction:
  assumes "c = ISCalcCorrelated_new sce larp g4 dp0"
    and "fUseModBoxRecomb c" and "\<not> fUseModLarqlRecomb c" and "StepLength edep = 0"
  shows "Recombination c (StepLength edep) dEdx EF = Fin 0
       \<and> CalcIonAndScint c detProp edep =
           \<lparr> energy_deposit = Fin (Energy edep),
             numElectrons = Fin 0,
             numPhotons = Fin (Energy edep / (19.5 * (1 / 10 ^ 6)) * ScintPreScale larp),
             scintillationYieldRatio = Fin (GetScintYieldRatio c edep) \<rparr>"
proof -
  have r: "Recombination c (StepLength edep) x y = Fin 0" for x y
    using assms(2,3,4) by (simp add: Recombination_def)
  note w = new_fields(1,2) [OF assms(1)] new_per_ion [OF assms(1)]
  show ?thesis
    unfolding CalcIonAndScint_unfold r w by (simp add: dsub_def)
qed

theorem modbox_zero_step_without_correction_witness:
  "fUseModBoxRecomb (ref_calc ref_SpaceCharge ref_LArG4Parameters)
   \<and> \<not> fUseModLarqlRecomb (ref_calc ref_SpaceCharge ref_LArG4Parameters)
   \<and> StepLength (ref_deposit\<lparr>Energy := 5, StepLength := 0\<rparr>) = 0
   \<and> Recombination (ref_calc ref_SpaceCharge ref_LArG4Parameters) 0 (Fin 1) (Fin (1 / 2)) = Fin 0
   \<and> CalcIonAndScint (ref_calc ref_SpaceCharge ref_LArG4Parameters) ref_DetectorProperties
        (ref_deposit\<lparr>Energy := 5, StepLength := 0\<rparr>)
       = \<lparr> energy_deposit = Fin 5, numElectrons = Fin 0, numPhotons = Fin (100000 / 13),
           scintillationYieldRatio = Fin (27 / 100) \<rparr>"
proof -
  let ?c = "ref_calc ref_SpaceCharge ref_LArG4Parameters"
  let ?d = "ref_deposit\<lparr>Energy := 5, StepLength := 0\<rparr>"
  have n: "?c = ISCalcCorrelated_new ref_SpaceCharge ref_LArProperties ref_LArG4Parameters
             ref_DetectorProperties"
    by (simp add: ref_calc_def)
  have m: "fUseModBoxRecomb ?c" and l: "\<not> fUseModLarqlRecomb ?c"
    by (simp_all add: ref_defs)
  have z: "StepLength ?d = 0" by simp
  show ?thesis
    using m l z
      modbox_zero_step_without_correction [OF n m l z, where dEdx = "Fin 1"
        and EF = "Fin (1 / 2)" and detProp = ref_DetectorProperties]
    by (simp add: ref_LArProperties_def ref_deposit_def ref_calc_def ISCalcCorrelated_new_def
        GetScintYieldRatio_def)
qed


section \<open>The floor on the energy loss per length\<close>

text \<open>
  C2: two deposits that agree on energy, position, particle code and ambient field, with
  positive step lengths, one with energy / step length below 1 and the other with
  energy / step length equal to 1, get identical results from the calculator.
\<close>

theorem dEdx_floor_same_result:
  assumes "Energy d1 = Energy d2" and "MidPoint d1 = MidPoint d2" and "PdgCode d1 = PdgCode d2"
    and "0 < StepLength d1" and "0 < StepLength d2"
    and "Energy d1 / StepLength d1 < 1" and "Energy d2 / StepLength d2 = 1"
  shows "CalcIonAndScint c detProp d1 = CalcIonAndScint c detProp d2"
proof -
  have a: "StepdEdx (Energy d1) (StepLength d1) = 1"
    using assms(4,6) by (simp add: StepdEdx_floor)
  have b: "StepdEdx (Energy d2) (StepLength d2) = 1"
    using assms(5,7) by (simp add: StepdEdx_floor)
  have r: "Recombination c (StepLength d1) (Fin 1) (Fin (EFieldAtStep c (Efield detProp) d1))
         = Recombination c (StepLength d2) (Fin 1) (Fin (EFieldAtStep c (Efield detProp) d2))"
    using assms(2,4,5)
    by (simp add: EFieldAtStep_cong [of d1 d2]
        Recombination_step_sign [of "StepLength d1" "StepLength d2"])
  have y: "GetScintYieldRatio c d1 = GetScintYieldRatio c d2"
    using assms(3) by (simp add: GetScintYieldRatio_def)
  show ?thesis
    unfolding CalcIonAndScint_unfold a b r y by (simp only: assms(1))
qed

theorem dEdx_floor_same_result_witness:
  "Energy (ref_deposit\<lparr>StepLength := 4\<rparr>) / StepLength (ref_deposit\<lparr>StepLength := 4\<rparr>) < 1
   \<and> Energy (ref_deposit\<lparr>StepLength := 2\<rparr>) / StepLength (ref_deposit\<lparr>StepLength := 2\<rparr>) = 1
   \<and> CalcIonAndScint (ref_calc ref_SpaceCharge ref_LArG4Parameters) ref_DetectorProperties
        (ref_deposit\<lparr>StepLength := 4\<rparr>)
     = CalcIonAndScint (ref_calc ref_SpaceCharge ref_LArG4Parameters) ref_DetectorProperties
        (ref_deposit\<lparr>StepLength := 2\<rparr>)
   \<and> CalcIonAndScint (ref_calc ref_SpaceCharge ref_LArG4Parameters) ref_DetectorProperties
        (ref_deposit\<lparr>StepLength := 2\<rparr>)
     = \<lparr> energy_deposit = Fin 2,
         numElectrons = Fin (118038583 * ln (3438887 / 2785900) / 424),
         numPhotons = Fin ((4000000 / 13 - 354115749 * ln (3438887 / 2785900) / 424) / 100),
         scintillationYieldRatio = Fin (27 / 100) \<rparr>"
proof -
  let ?d1 = "ref_deposit\<lparr>StepLength := 4\<rparr>" and ?d2 = "ref_deposit\<lparr>StepLength := 2\<rparr>"
  have h: "Energy ?d1 = Energy ?d2" "MidPoint ?d1 = MidPoint ?d2" "PdgCode ?d1 = PdgCode ?d2"
    "0 < StepLength ?d1" "0 < StepLength ?d2"
    by simp_all
  have q1: "Energy ?d1 / StepLength ?d1 < 1" and q2: "Energy ?d2 / StepLength ?d2 = 1"
    by (simp_all add: ref_deposit_def)
  have v: "CalcIonAndScint (ref_calc ref_SpaceCharge ref_LArG4Parameters) ref_DetectorProperties ?d2
     = \<lparr> energy_deposit = Fin 2,
         numElectrons = Fin (118038583 * ln (3438887 / 2785900) / 424),
         numPhotons = Fin ((4000000 / 13 - 354115749 * ln (3438887 / 2785900) / 424) / 100),
         scintillationYieldRatio = Fin (27 / 100) \<rparr>"
    by (simp add: calc_defs ref_defs Let_def)
  show ?thesis
    using q1 q2 v
      dEdx_floor_same_result [OF h q1 q2,
        where c = "ref_calc ref_SpaceCharge ref_LArG4Parameters"
        and detProp = ref_DetectorProperties]
    by simp
qed


section \<open>Photons from the remaining quanta\<close>

text \<open>
  C3: for every deposit, the photon count of the result is
  (Nq - electrons) * scintPreScale with Nq = energy / W\_ph and W\_ph = 19.5e-6 MeV, where
  the electron count is (energy / W\_ion) * recomb. The value is not clamped: it is negative
  when the electron count exceeds Nq and the pre-scale is positive.
\<close>

theorem photons_from_remaining_quanta:
  assumes "c = ISCalcCorrelated_new sce larp g4 dp0"
    and "r = CalcIonAndScint c detProp edep"
  shows "numPhotons r
           = dmul (dsub (Fin (Energy edep / (19.5 * (1 / 10 ^ 6)))) (numElectrons r))
               (Fin (ScintPreScale larp))
       \<and> numElectrons r
           = dmul (ddiv (Fin (Energy edep)) (fWion c))
               (Recombination c (StepLength edep)
                  (Fin (StepdEdx (Energy edep) (StepLength edep)))
                  (Fin (EFieldAtStep c (Efield detProp) edep)))
       \<and> (dless (Fin (Energy edep / (19.5 * (1 / 10 ^ 6)))) (numElectrons r)
            \<and> 0 < ScintPreScale larp
          \<longrightarrow> dless (numPhotons r) (Fin 0))"
proof -
  note w = new_fields(1,2) [OF assms(1)]
  have q: "ddiv (Fin (Energy edep)) (fWph c) = Fin (Energy edep / (19.5 * (1 / 10 ^ 6)))"
    unfolding w by simp
  have e: "numElectrons r
           = dmul (ddiv (Fin (Energy edep)) (fWion c))
               (Recombination c (StepLength edep)
                  (Fin (StepdEdx (Energy edep) (StepLength edep)))
                  (Fin (EFieldAtStep c (Efield detProp) edep)))"
    unfolding assms(2) CalcIonAndScint_unfold by simp
  have p: "numPhotons r
           = dmul (dsub (Fin (Energy edep / (19.5 * (1 / 10 ^ 6)))) (numElectrons r))
               (Fin (ScintPreScale larp))"
    unfolding e unfolding assms(2) CalcIonAndScint_unfold q w(2) by simp
  have n: "dless (numPhotons r) (Fin 0)"
    if "dless (Fin (Energy edep / (19.5 * (1 / 10 ^ 6)))) (numElectrons r)"
      and "0 < ScintPreScale larp"
    unfolding p using that by (rule photons_negative)
  from p e n show ?thesis by blast
qed

text \<open>
  Two runs of 2 MeV over 1 cm with Birks-style recombination. With a work function of
  10 eV per electron (\<open>10 ^ 8\<close> electrons per GeV) the electrons exceed the quanta and the
  photon count is negative. With the reference constants and a zero ambient field the
  recombination fraction is 0, there are no electrons, and all the quanta are photons.
\<close>

theorem photons_from_remaining_quanta_witness:
  "CalcIonAndScint
     (ref_calc ref_SpaceCharge
        (ref_LArG4Parameters\<lparr>UseModBoxRecomb := False, GeVToElectrons := 10 ^ 8\<rparr>))
     ref_DetectorProperties ref_deposit
     = \<lparr> energy_deposit = Fin 2, numElectrons = Fin (4457440000 / 31747),
         numPhotons = Fin (- (468521600 / 412711)),
         scintillationYieldRatio = Fin (27 / 100) \<rparr>
   \<and> dless (Fin (Energy ref_deposit / (19.5 * (1 / 10 ^ 6)))) (Fin (4457440000 / 31747))
   \<and> 0 < ScintPreScale ref_LArProperties
   \<and> Fin (- (468521600 / 412711))
       = dmul (dsub (Fin (Energy ref_deposit / (19.5 * (1 / 10 ^ 6))))
                 (Fin (4457440000 / 31747)))
           (Fin (ScintPreScale ref_LArProperties))
   \<and> dless (Fin (- (468521600 / 412711))) (Fin 0)
   \<and> CalcIonAndScint
        (ref_calc ref_SpaceCharge (ref_LArG4Parameters\<lparr>UseModBoxRecomb := False\<rparr>))
        (ref_DetectorProperties\<lparr>Efield := 0\<rparr>) ref_deposit
     = \<lparr> energy_deposit = Fin 2, numElectrons = Fin 0, numPhotons = Fin (40000 / 13),
         scintillationYieldRatio = Fin (27 / 100) \<rparr>
   \<and> Fin (40000 / 13)
       = dmul (dsub (Fin (Energy ref_deposit / (19.5 * (1 / 10 ^ 6)))) (Fin 0))
           (Fin (ScintPreScale ref_LArProperties))"
proof -
  let ?g = "ref_LArG4Parameters\<lparr>UseModBoxRecomb := False, GeVToElectrons := 10 ^ 8\<rparr>"
  let ?b = "ref_LArG4Parameters\<lparr>UseModBoxRecomb := False\<rparr>"
  let ?z = "ref_DetectorProperties\<lparr>Efield := 0\<rparr>"
  have n: "ref_calc ref_SpaceCharge g
             = ISCalcCorrelated_new ref_SpaceCharge ref_LArProperties g ref_DetectorProperties"
    for g by (simp add: ref_calc_def)
  have v: "CalcIonAndScint (ref_calc ref_SpaceCharge ?g) ref_DetectorProperties ref_deposit
             = \<lparr> energy_deposit = Fin 2, numElectrons = Fin (4457440000 / 31747),
                 numPhotons = Fin (- (468521600 / 412711)),
                 scintillationYieldRatio = Fin (27 / 100) \<rparr>"
    by (simp add: calc_defs ref_defs Let_def)
  have u: "CalcIonAndScint (ref_calc ref_SpaceCharge ?b) ?z ref_deposit
             = \<lparr> energy_deposit = Fin 2, numElectrons = Fin 0, numPhotons = Fin (40000 / 13),
                 scintillationYieldRatio = Fin (27 / 100) \<rparr>"
    by (simp add: calc_defs ref_defs Let_def)
  note t1 = photons_from_remaining_quanta [OF n v [symmetric], unfolded ISCalcData.select_convs]
  note t2 = photons_from_remaining_quanta [OF n u [symmetric], unfolded ISCalcData.select_convs]
  have s1: "dless (Fin (Energy ref_deposit / (19.5 * (1 / 10 ^ 6)))) (Fin (4457440000 / 31747))"
    by (simp add: ref_deposit_def)
  have s2: "0 < ScintPreScale ref_LArProperties"
    by (simp add: ref_LArProperties_def)
  have p1: "Fin (- (468521600 / 412711))
       = dmul (dsub (Fin (Energy ref_deposit / (19.5 * (1 / 10 ^ 6))))
                 (Fin (4457440000 / 31747)))
           (Fin (ScintPreScale ref_LArProperties))"
    using t1 by blast
  have m: "dless (Fin (- (468521600 / 412711))) (Fin 0)"
    using t1 s1 s2 by blast
  have p2: "Fin (40000 / 13)
       = dmul (dsub (Fin (Energy ref_deposit / (19.5 * (1 / 10 ^ 6)))) (Fin 0))
           (Fin (ScintPreScale ref_LArProperties))"
    using t2 by blast
  show ?thesis
    using v s1 s2 p1 m u p2 by blast
qed


section \<open>Divisions without a guard\<close>

text \<open>
  C4: in the Birks-style branch (Modified-Box disabled) the recombination formula divides
  by the field at the step with no guard. With field distortion disabled and a zero
  ambient field that divisor is zero, and the division takes its case for a zero divisor:
  the quotient is an infinity or NaN. The formula goes on with it; for a positive
  coefficient \<open>k\<close> and a finite \<open>A\<close> the quotient is plus infinity and the recombination
  fraction \<open>A / (1 + infinity)\<close> is 0.
\<close>

theorem birks_zero_field_divides_by_zero:
  assumes "\<not> fUseModBoxRecomb c" and "\<not> EnableSimEfieldSCE (fSCE c)"
    and "Efield detProp = 0"
  shows "EFieldAtStep c (Efield detProp) edep = 0
       \<and> ddiv (dmul dEdx (fRecombk c)) (Fin (EFieldAtStep c (Efield detProp) edep))
           \<in> {PInf, NInf, NaN}
       \<and> (\<not> fUseModLarqlRecomb c \<longrightarrow>
            Recombination c ds dEdx (Fin (EFieldAtStep c (Efield detProp) edep))
              = ddiv (fRecombA c) (dadd (Fin 1) (ddiv (dmul dEdx (fRecombk c)) (Fin 0))))
       \<and> (\<not> fUseModLarqlRecomb c \<and> fRecombA c = Fin A \<and> fRecombk c = Fin k \<and> 0 < k
            \<and> dEdx = Fin x \<and> 0 < x \<longrightarrow>
            ddiv (dmul dEdx (fRecombk c)) (Fin (EFieldAtStep c (Efield detProp) edep)) = PInf
            \<and> Recombination c ds dEdx (Fin (EFieldAtStep c (Efield detProp) edep)) = Fin 0)"
proof -
  have e: "EFieldAtStep c (Efield detProp) edep = 0"
    using assms(2,3) by (simp add: EFieldAtStep_def)
  have q: "ddiv (dmul dEdx (fRecombk c)) (Fin 0) \<in> {PInf, NInf, NaN}"
    by (rule ddiv_by_zero)
  have r: "Recombination c ds dEdx (Fin 0)
             = ddiv (fRecombA c) (dadd (Fin 1) (ddiv (dmul dEdx (fRecombk c)) (Fin 0)))"
    if "\<not> fUseModLarqlRecomb c"
    using assms(1) that by (simp add: Recombination_def)
  have p: "ddiv (dmul dEdx (fRecombk c)) (Fin 0) = PInf"
    if "fRecombk c = Fin k" "0 < k" "dEdx = Fin x" "0 < x"
    using that by simp
  have z: "Recombination c ds dEdx (Fin 0) = Fin 0"
    if "\<not> fUseModLarqlRecomb c" "fRecombA c = Fin A" "fRecombk c = Fin k" "0 < k"
      "dEdx = Fin x" "0 < x"
    unfolding r [OF that(1)] p [OF that(3-6)] using that(2) by simp
  from q r p z show ?thesis
    unfolding e by blast
qed

theorem birks_zero_field_divides_by_zero_witness:
  "\<not> fUseModBoxRecomb (ref_calc ref_SpaceCharge (ref_LArG4Parameters\<lparr>UseModBoxRecomb := False\<rparr>))
   \<and> \<not> EnableSimEfieldSCE
         (fSCE (ref_calc ref_SpaceCharge (ref_LArG4Parameters\<lparr>UseModBoxRecomb := False\<rparr>)))
   \<and> Efield (ref_DetectorProperties\<lparr>Efield := 0\<rparr>) = 0
   \<and> \<not> fUseModLarqlRecomb
         (ref_calc ref_SpaceCharge (ref_LArG4Parameters\<lparr>UseModBoxRecomb := False\<rparr>))
   \<and> fRecombA (ref_calc ref_SpaceCharge (ref_LArG4Parameters\<lparr>UseModBoxRecomb := False\<rparr>))
       = Fin (4 / 5)
   \<and> fRecombk (ref_calc ref_SpaceCharge (ref_LArG4Parameters\<lparr>UseModBoxRecomb := False\<rparr>))
       = Fin (972 / 27859)
   \<and> EFieldAtStep (ref_calc ref_SpaceCharge (ref_LArG4Parameters\<lparr>UseModBoxRecomb := False\<rparr>))
        (Efield (ref_DetectorProperties\<lparr>Efield := 0\<rparr>)) ref_deposit = 0
   \<and> ddiv (dmul (Fin 2)
              (fRecombk (ref_calc ref_SpaceCharge
                           (ref_LArG4Parameters\<lparr>UseModBoxRecomb := False\<rparr>))))
        (Fin 0) = PInf
   \<and> Recombination (ref_calc ref_SpaceCharge (ref_LArG4Parameters\<lparr>UseModBoxRecomb := False\<rparr>))
        1 (Fin 2) (Fin 0) = Fin 0
   \<and> CalcIonAndScint (ref_calc ref_SpaceCharge (ref_LArG4Parameters\<lparr>UseModBoxRecomb := False\<rparr>))
        (ref_DetectorProperties\<lparr>Efield := 0\<rparr>) ref_deposit
       = \<lparr> energy_deposit = Fin 2, numElectrons = Fin 0, numPhotons = Fin (40000 / 13),
           scintillationYieldRatio = Fin (27 / 100) \<rparr>"
proof -
  let ?c = "ref_calc ref_SpaceCharge (ref_LArG4Parameters\<lparr>UseModBoxRecomb := False\<rparr>)"
  let ?dp = "ref_DetectorProperties\<lparr>Efield := 0\<rparr>"
  have b: "\<not> fUseModBoxRecomb ?c" and s: "\<not> EnableSimEfieldSCE (fSCE ?c)"
    and l: "\<not> fUseModLarqlRecomb ?c"
    by (simp_all add: ref_defs)
  have z: "Efield ?dp = 0" by simp
  have a: "fRecombA ?c = Fin (4 / 5)" and k: "fRecombk ?c = Fin (972 / 27859)"
    by (simp_all add: ref_defs)
  have v: "CalcIonAndScint ?c ?dp ref_deposit
       = \<lparr> energy_deposit = Fin 2, numElectrons = Fin 0, numPhotons = Fin (40000 / 13),
           scintillationYieldRatio = Fin (27 / 100) \<rparr>"
    by (simp add: calc_defs ref_defs Let_def)
  note t = birks_zero_field_divides_by_zero [OF b s z, where dEdx = "Fin 2"
      and edep = ref_deposit and ds = 1 and A = "4 / 5" and k = "972 / 27859" and x = 2]
  have e: "EFieldAtStep ?c (Efield ?dp) ref_deposit = 0"
    using t by blast
  have h: "\<not> fUseModLarqlRecomb ?c \<and> fRecombA ?c = Fin (4 / 5)
      \<and> fRecombk ?c = Fin (972 / 27859) \<and> 0 < (972 / 27859 :: real)
      \<and> Fin 2 = Fin 2 \<and> 0 < (2::real)"
    using l a k by simp
  have "ddiv (dmul (Fin 2) (fRecombk ?c)) (Fin (EFieldAtStep ?c (Efield ?dp) ref_deposit)) = PInf
      \<and> Recombination ?c 1 (Fin 2) (Fin (EFieldAtStep ?c (Efield ?dp) ref_deposit)) = Fin 0"
    using t h by blast
  then have r: "ddiv (dmul (Fin 2) (fRecombk ?c)) (Fin 0) = PInf"
      "Recombination ?c 1 (Fin 2) (Fin 0) = Fin 0"
    unfolding e by simp_all
  show ?thesis
    using b s z l a k e r v by blast
qed

text \<open>
  C5: the denominator \<open>alpha * ln dEdx + beta\<close> of the LArQL field correction has no
  guard. For finite \<open>alpha\<close> and \<open>beta\<close> and an energy loss per length of at least 1 at which
  it is zero, the division of \<open>FieldCorrection\<close> has a zero divisor and takes its case for
  one: the quotient is an infinity or NaN, and \<open>FieldCorrection\<close> returns 0 for a positive
  field, plus infinity for a negative one and NaN for a zero one. When the low-field
  correction is enabled, that value is the floored energy loss of the deposit, the field
  is positive and the escaping fraction is finite, the calculator returns what it returns
  with the correction disabled.
\<close>

theorem larql_denominator_can_vanish:
  assumes "1 \<le> dEdx" and "fLarqlAlpha c = Fin a" and "fLarqlBeta c = Fin b"
    and "a * ln dEdx + b = 0"
  shows "dadd (dmul (fLarqlAlpha c) (dlog (Fin dEdx))) (fLarqlBeta c) = Fin 0
       \<and> ddiv (dneg EF) (dadd (dmul (fLarqlAlpha c) (dlog (Fin dEdx))) (fLarqlBeta c))
           \<in> {PInf, NInf, NaN}
       \<and> FieldCorrection c (Fin e) (Fin dEdx)
           = (if e = 0 then NaN else if 0 < e then Fin 0 else PInf)
       \<and> (fUseModLarqlRecomb c \<and> StepdEdx (Energy edep) (StepLength edep) = dEdx
            \<and> 0 < EFieldAtStep c (Efield detProp) edep
            \<and> EscapingEFraction c (Fin dEdx) = Fin x
          \<longrightarrow> CalcIonAndScint c detProp edep
                = CalcIonAndScint (c\<lparr>fUseModLarqlRecomb := False\<rparr>) detProp edep)"
proof -
  have d: "dadd (dmul (fLarqlAlpha c) (dlog (Fin dEdx))) (fLarqlBeta c) = Fin 0"
    using assms by simp
  have q: "ddiv (dneg EF) (dadd (dmul (fLarqlAlpha c) (dlog (Fin dEdx))) (fLarqlBeta c))
             \<in> {PInf, NInf, NaN}"
    unfolding d by (rule ddiv_by_zero)
  have f: "FieldCorrection c (Fin y) (Fin dEdx)
             = (if y = 0 then NaN else if 0 < y then Fin 0 else PInf)" for y
    unfolding FieldCorrection_def d by simp
  have g: "CalcIonAndScint c detProp edep
             = CalcIonAndScint (c\<lparr>fUseModLarqlRecomb := False\<rparr>) detProp edep"
    if l: "fUseModLarqlRecomb c" and s: "StepdEdx (Energy edep) (StepLength edep) = dEdx"
      and p: "0 < EFieldAtStep c (Efield detProp) edep"
      and x: "EscapingEFraction c (Fin dEdx) = Fin x"
  proof -
    let ?c = "c\<lparr>fUseModLarqlRecomb := False\<rparr>"
    let ?E = "EFieldAtStep c (Efield detProp) edep"
    have "Recombination c (StepLength edep) (Fin dEdx) (Fin ?E)
            = dadd (Recombination ?c (StepLength edep) (Fin dEdx) (Fin ?E))
                (dmul (EscapingEFraction c (Fin dEdx)) (FieldCorrection c (Fin ?E) (Fin dEdx)))"
      using l by (rule Recombination_correction)
    also have "\<dots> = Recombination ?c (StepLength edep) (Fin dEdx) (Fin ?E)"
      unfolding x f using p by (simp add: dadd_zero_right)
    finally have r: "Recombination c (StepLength edep) (Fin dEdx) (Fin ?E)
            = Recombination ?c (StepLength edep) (Fin dEdx) (Fin ?E)" .
    have e: "EFieldAtStep ?c (Efield detProp) edep = ?E"
      by (simp add: EFieldAtStep_def)
    have y: "GetScintYieldRatio ?c edep = GetScintYieldRatio c edep"
      by (simp add: GetScintYieldRatio_def Let_def cong: if_cong)
    show ?thesis
      unfolding CalcIonAndScint_unfold s e y r by simp
  qed
  from d q f g show ?thesis by blast
qed

text \<open>
  A run: Modified-Box recombination with the correction enabled and \<open>beta = 0\<close>; a deposit
  of 2 MeV over 4 cm has its energy loss floored to 1, where \<open>ln 1 = 0\<close>. The field
  correction is \<open>exp (- infinity) = 0\<close> and the result is the one of the run with the
  correction disabled.
\<close>

theorem larql_denominator_can_vanish_witness:
  "(1::real) \<le> 1
   \<and> fLarqlAlpha (ref_calc ref_SpaceCharge
                    (ref_LArG4Parameters\<lparr>UseModLarqlRecomb := True, LarqlBeta := 0\<rparr>)) = Fin 1
   \<and> fLarqlBeta (ref_calc ref_SpaceCharge
                    (ref_LArG4Parameters\<lparr>UseModLarqlRecomb := True, LarqlBeta := 0\<rparr>)) = Fin 0
   \<and> (1::real) * ln 1 + 0 = 0
   \<and> fUseModLarqlRecomb (ref_calc ref_SpaceCharge
                    (ref_LArG4Parameters\<lparr>UseModLarqlRecomb := True, LarqlBeta := 0\<rparr>))
   \<and> StepdEdx (Energy (ref_deposit\<lparr>StepLength := 4\<rparr>))
        (StepLength (ref_deposit\<lparr>StepLength := 4\<rparr>)) = 1
   \<and> 0 < EFieldAtStep (ref_calc ref_SpaceCharge
                    (ref_LArG4Parameters\<lparr>UseModLarqlRecomb := True, LarqlBeta := 0\<rparr>))
           (Efield ref_DetectorProperties) (ref_deposit\<lparr>StepLength := 4\<rparr>)
   \<and> EscapingEFraction (ref_calc ref_SpaceCharge
                    (ref_LArG4Parameters\<lparr>UseModLarqlRecomb := True, LarqlBeta := 0\<rparr>)) (Fin 1)
       = Fin (1 / 2)
   \<and> ddiv (dneg (Fin (1 / 2)))
        (dadd (dmul (fLarqlAlpha (ref_calc ref_SpaceCharge
                    (ref_LArG4Parameters\<lparr>UseModLarqlRecomb := True, LarqlBeta := 0\<rparr>)))
                 (dlog (Fin 1)))
           (fLarqlBeta (ref_calc ref_SpaceCharge
                    (ref_LArG4Parameters\<lparr>UseModLarqlRecomb := True, LarqlBeta := 0\<rparr>))))
       = NInf
   \<and> FieldCorrection (ref_calc ref_SpaceCharge
                    (ref_LArG4Parameters\<lparr>UseModLarqlRecomb := True, LarqlBeta := 0\<rparr>))
        (Fin (1 / 2)) (Fin 1) = Fin 0
   \<and> CalcIonAndScint (ref_calc ref_SpaceCharge
                    (ref_LArG4Parameters\<lparr>UseModLarqlRecomb := True, LarqlBeta := 0\<rparr>))
        ref_DetectorProperties (ref_deposit\<lparr>StepLength := 4\<rparr>)
     = CalcIonAndScint
        ((ref_calc ref_SpaceCharge
            (ref_LArG4Parameters\<lparr>UseModLarqlRecomb := True, LarqlBeta := 0\<rparr>))
           \<lparr>fUseModLarqlRecomb := False\<rparr>)
        ref_DetectorProperties (ref_deposit\<lparr>StepLength := 4\<rparr>)
   \<and> CalcIonAndScint (ref_calc ref_SpaceCharge
                    (ref_LArG4Parameters\<lparr>UseModLarqlRecomb := True, LarqlBeta := 0\<rparr>))
        ref_DetectorProperties (ref_deposit\<lparr>StepLength := 4\<rparr>)
     = \<lparr> energy_deposit = Fin 2,
         numElectrons = Fin (118038583 * ln (3438887 / 2785900) / 424),
         numPhotons = Fin ((4000000 / 13 - 354115749 * ln (3438887 / 2785900) / 424) / 100),
         scintillationYieldRatio = Fin (27 / 100) \<rparr>"
proof -
  let ?c = "ref_calc ref_SpaceCharge
              (ref_LArG4Parameters\<lparr>UseModLarqlRecomb := True, LarqlBeta := 0\<rparr>)"
  let ?d = "ref_deposit\<lparr>StepLength := 4\<rparr>"
  have o: "(1::real) \<le> 1" by simp
  have a: "fLarqlAlpha ?c = Fin 1" and b: "fLarqlBeta ?c = Fin 0"
    by (simp_all add: ref_defs)
  have z: "(1::real) * ln 1 + 0 = 0" by simp
  have l: "fUseModLarqlRecomb ?c"
    by (simp add: ref_defs)
  have s: "StepdEdx (Energy ?d) (StepLength ?d) = 1"
    by (simp add: ref_deposit_def StepdEdx_def)
  have p: "0 < EFieldAtStep ?c (Efield ref_DetectorProperties) ?d"
    by (simp add: EFieldAtStep_def ref_defs)
  have x: "EscapingEFraction ?c (Fin 1) = Fin (1 / 2)"
    by (simp add: EscapingEFraction_def ref_defs)
  have q: "ddiv (dneg (Fin (1 / 2)))
             (dadd (dmul (fLarqlAlpha ?c) (dlog (Fin 1))) (fLarqlBeta ?c)) = NInf"
    unfolding a b by simp
  have v: "CalcIonAndScint ?c ref_DetectorProperties ?d
     = \<lparr> energy_deposit = Fin 2,
         numElectrons = Fin (118038583 * ln (3438887 / 2785900) / 424),
         numPhotons = Fin ((4000000 / 13 - 354115749 * ln (3438887 / 2785900) / 424) / 100),
         scintillationYieldRatio = Fin (27 / 100) \<rparr>"
    by (simp add: calc_defs ref_defs Let_def)
  note t = larql_denominator_can_vanish [OF o a b z, where EF = "Fin (1 / 2)" and e = "1 / 2"
      and edep = ?d and detProp = ref_DetectorProperties and x = "1 / 2"]
  have f: "FieldCorrection ?c (Fin (1 / 2)) (Fin 1) = Fin 0"
    using t by simp
  have g: "CalcIonAndScint ?c ref_DetectorProperties ?d
             = CalcIonAndScint (?c\<lparr>fUseModLarqlRecomb := False\<rparr>) ref_DetectorProperties ?d"
    using t l s p x by blast
  show ?thesis
    using o a b z l s p x q f g v by blast
qed

text \<open>
  C6: whatever the energy and the step length (zero and negative ones included), the energy
  loss per length that \<open>CalcIonAndScint\<close> passes on, to \<open>EscapingEFraction\<close> and
  \<open>FieldCorrection\<close> among others, is at least 1; so its logarithm in \<open>FieldCorrection\<close>
  is the logarithm of a number, and not negative.
\<close>

theorem dEdx_passed_on_at_least_one:
  "1 \<le> StepdEdx energy ds
   \<and> 0 \<le> ln (StepdEdx energy ds)
   \<and> dlog (Fin (StepdEdx energy ds)) = Fin (ln (StepdEdx energy ds))
   \<and> FieldCorrection c EF (Fin (StepdEdx energy ds))
       = dexp (ddiv (dneg EF)
                 (dadd (dmul (fLarqlAlpha c) (Fin (ln (StepdEdx energy ds)))) (fLarqlBeta c)))
   \<and> numElectrons (CalcIonAndScint c detProp edep)
       = dmul (ddiv (Fin (Energy edep)) (fWion c))
           (Recombination c (StepLength edep)
              (Fin (StepdEdx (Energy edep) (StepLength edep)))
              (Fin (EFieldAtStep c (Efield detProp) edep)))
   \<and> (fUseModLarqlRecomb c \<longrightarrow>
        Recombination c s dEdx E
          = dadd (Recombination (c\<lparr>fUseModLarqlRecomb := False\<rparr>) s dEdx E)
              (dmul (EscapingEFraction c dEdx) (FieldCorrection c E dEdx)))"
proof -
  have a: "1 \<le> StepdEdx energy ds" by (rule StepdEdx_ge_1)
  then have b: "0 \<le> ln (StepdEdx energy ds)" by simp
  from a have l: "dlog (Fin (StepdEdx energy ds)) = Fin (ln (StepdEdx energy ds))"
    by simp
  have f: "FieldCorrection c EF (Fin (StepdEdx energy ds))
       = dexp (ddiv (dneg EF)
                 (dadd (dmul (fLarqlAlpha c) (Fin (ln (StepdEdx energy ds)))) (fLarqlBeta c)))"
    unfolding FieldCorrection_def l ..
  have n: "numElectrons (CalcIonAndScint c detProp edep)
       = dmul (ddiv (Fin (Energy edep)) (fWion c))
           (Recombination c (StepLength edep)
              (Fin (StepdEdx (Energy edep) (StepLength edep)))
              (Fin (EFieldAtStep c (Efield detProp) edep)))"
    unfolding CalcIonAndScint_unfold by simp
  from a b l f n Recombination_correction [of c s dEdx E] show ?thesis by blast
qed

text \<open>
  Runs with the low-field correction enabled: an energy loss of 6 MeV over 2 cm, which the
  floor leaves at 3, under Birks-style recombination; and 5 MeV over a step of length 0,
  floored to 1, under Modified-Box recombination.
\<close>

theorem dEdx_passed_on_at_least_one_witness:
  "StepdEdx 6 2 = 3
   \<and> 1 \<le> StepdEdx 6 2
   \<and> 0 \<le> ln (StepdEdx 6 2)
   \<and> dlog (Fin (StepdEdx 6 2)) = Fin (ln 3)
   \<and> fUseModLarqlRecomb
       (ref_calc ref_SpaceCharge
          (ref_LArG4Parameters\<lparr>UseModBoxRecomb := False, UseModLarqlRecomb := True\<rparr>))
   \<and> Recombination
        (ref_calc ref_SpaceCharge
          (ref_LArG4Parameters\<lparr>UseModBoxRecomb := False, UseModLarqlRecomb := True\<rparr>))
        2 (Fin (StepdEdx 6 2)) (Fin (1 / 2))
     = dadd (Fin (111436 / 168455))
         (dmul (Fin (1 / 2)) (Fin (exp (- (1 / 2) / (ln 3 + 1)))))
   \<and> StepdEdx 5 0 = 1
   \<and> FieldCorrection (ref_calc ref_SpaceCharge (ref_LArG4Parameters\<lparr>UseModLarqlRecomb := True\<rparr>))
        (Fin (1 / 2)) (Fin (StepdEdx 5 0)) = Fin (exp (- (1 / 2)))
   \<and> numElectrons
        (CalcIonAndScint (ref_calc ref_SpaceCharge (ref_LArG4Parameters\<lparr>UseModLarqlRecomb := True\<rparr>))
           ref_DetectorProperties (ref_deposit\<lparr>Energy := 5, StepLength := 0\<rparr>))
     = Fin (105925 * exp (- (1 / 2)))"
proof -
  let ?b = "ref_calc ref_SpaceCharge
              (ref_LArG4Parameters\<lparr>UseModBoxRecomb := False, UseModLarqlRecomb := True\<rparr>)"
  let ?m = "ref_calc ref_SpaceCharge (ref_LArG4Parameters\<lparr>UseModLarqlRecomb := True\<rparr>)"
  let ?z = "ref_deposit\<lparr>Energy := 5, StepLength := 0\<rparr>"
  have s: "StepdEdx 6 2 = 3" "StepdEdx 5 0 = 1"
    by (simp_all add: StepdEdx_def)
  have lb: "fUseModLarqlRecomb ?b"
    by (simp add: ref_defs)
  have "0 < ln (3::real)" by simp
  then have p: "ln 3 + 1 \<noteq> (0::real)" by arith
  note birks = dEdx_passed_on_at_least_one [where energy = 6 and ds = 2 and c = ?b
      and EF = "Fin (1 / 2)" and s = 2 and dEdx = "Fin (StepdEdx 6 2)" and E = "Fin (1 / 2)"]
  note modbox = dEdx_passed_on_at_least_one [where energy = 5 and ds = 0 and c = ?m
      and EF = "Fin (1 / 2)" and edep = ?z and detProp = ref_DetectorProperties]
  have g: "1 \<le> StepdEdx 6 2" "0 \<le> ln (StepdEdx 6 2)"
    using birks by blast+
  have d: "dlog (Fin (StepdEdx 6 2)) = Fin (ln 3)"
    using birks unfolding s by blast
  have "Recombination ?b 2 (Fin (StepdEdx 6 2)) (Fin (1 / 2))
          = dadd (Recombination (?b\<lparr>fUseModLarqlRecomb := False\<rparr>) 2 (Fin (StepdEdx 6 2))
                    (Fin (1 / 2)))
              (dmul (EscapingEFraction ?b (Fin (StepdEdx 6 2)))
                 (FieldCorrection ?b (Fin (1 / 2)) (Fin (StepdEdx 6 2))))"
    using birks lb by blast
  then have r: "Recombination ?b 2 (Fin (StepdEdx 6 2)) (Fin (1 / 2))
     = dadd (Fin (111436 / 168455))
         (dmul (Fin (1 / 2)) (Fin (exp (- (1 / 2) / (ln 3 + 1)))))"
    using p by (simp add: s Recombination_def EscapingEFraction_def FieldCorrection_def ref_defs)
  have "FieldCorrection ?m (Fin (1 / 2)) (Fin (StepdEdx 5 0))
          = dexp (ddiv (dneg (Fin (1 / 2)))
               (dadd (dmul (fLarqlAlpha ?m) (Fin (ln (StepdEdx 5 0)))) (fLarqlBeta ?m)))"
    using modbox by blast
  then have f: "FieldCorrection ?m (Fin (1 / 2)) (Fin (StepdEdx 5 0)) = Fin (exp (- (1 / 2)))"
    by (simp add: s ref_defs)
  have "numElectrons (CalcIonAndScint ?m ref_DetectorProperties ?z)
       = dmul (ddiv (Fin (Energy ?z)) (fWion ?m))
           (Recombination ?m (StepLength ?z) (Fin (StepdEdx (Energy ?z) (StepLength ?z)))
              (Fin (EFieldAtStep ?m (Efield ref_DetectorProperties) ?z)))"
    using modbox by blast
  then have e: "numElectrons (CalcIonAndScint ?m ref_DetectorProperties ?z)
       = Fin (105925 * exp (- (1 / 2)))"
    by (simp add: calc_defs ref_defs Let_def)
  show ?thesis
    using s g d lb r f e by blast
qed


section \<open>The field at the step\<close>

text \<open>
  C7: the field used in the recombination formulas is the ambient field unchanged when
  field distortion is disabled, and otherwise the ambient field times the Euclidean norm
  of \<open>(1 + dx, dy, dz)\<close>, where \<open>(dx, dy, dz)\<close> is the offset the space-charge provider gives
  for the midpoint of the deposit. The calculator computes what it would compute with
  distortion disabled and that field as the ambient one.
\<close>

theorem effective_field_at_step:
  "(\<not> EnableSimEfieldSCE (fSCE c) \<longrightarrow> EFieldAtStep c efield edep = efield)
   \<and> (EnableSimEfieldSCE (fSCE c) \<longrightarrow>
        EFieldAtStep c efield edep =
          efield * sqrt ((1 + X (GetEfieldOffsets (fSCE c) (MidPoint edep)))\<^sup>2
                         + (Y (GetEfieldOffsets (fSCE c) (MidPoint edep)))\<^sup>2
                         + (Z (GetEfieldOffsets (fSCE c) (MidPoint edep)))\<^sup>2))
   \<and> CalcIonAndScint c detProp edep =
       CalcIonAndScint (c\<lparr>fSCE := (fSCE c)\<lparr>EnableSimEfieldSCE := False\<rparr>\<rparr>)
         (detProp\<lparr>Efield := EFieldAtStep c (Efield detProp) edep\<rparr>) edep"
proof -
  let ?c = "c\<lparr>fSCE := (fSCE c)\<lparr>EnableSimEfieldSCE := False\<rparr>\<rparr>"
  let ?d = "detProp\<lparr>Efield := EFieldAtStep c (Efield detProp) edep\<rparr>"
  have e: "EFieldAtStep ?c (Efield ?d) edep = EFieldAtStep c (Efield detProp) edep"
    by (simp add: EFieldAtStep_def)
  have r: "Recombination ?c = Recombination c"
    by (simp add: fun_eq_iff Recombination_def EscapingEFraction_def FieldCorrection_def
        Let_def cong: if_cong)
  have y: "GetScintYieldRatio ?c edep = GetScintYieldRatio c edep"
    by (simp add: GetScintYieldRatio_def Let_def cong: if_cong)
  have "CalcIonAndScint c detProp edep = CalcIonAndScint ?c ?d edep"
    unfolding CalcIonAndScint_unfold e r y by simp
  then show ?thesis
    by (simp add: EFieldAtStep_def hypot3_def Let_def)
qed

text \<open>
  Two runs with Birks-style recombination on the reference deposit, whose midpoint
  \<open>(10, 20, 10)\<close> has the offset \<open>(1, 2, 1)\<close>: distortion disabled, field 1/2; distortion
  enabled, field \<open>1/2 * sqrt (2\<^sup>2 + 2\<^sup>2 + 1\<^sup>2) = 3/2\<close>.
\<close>

theorem effective_field_at_step_witness:
  "\<not> EnableSimEfieldSCE
       (fSCE (ref_calc ref_SpaceCharge (ref_LArG4Parameters\<lparr>UseModBoxRecomb := False\<rparr>)))
   \<and> EFieldAtStep (ref_calc ref_SpaceCharge (ref_LArG4Parameters\<lparr>UseModBoxRecomb := False\<rparr>))
        (1 / 2) ref_deposit = 1 / 2
   \<and> EnableSimEfieldSCE
       (fSCE (ref_calc (ref_SpaceCharge\<lparr>EnableSimEfieldSCE := True\<rparr>)
                (ref_LArG4Parameters\<lparr>UseModBoxRecomb := False\<rparr>)))
   \<and> EFieldAtStep (ref_calc (ref_SpaceCharge\<lparr>EnableSimEfieldSCE := True\<rparr>)
                     (ref_LArG4Parameters\<lparr>UseModBoxRecomb := False\<rparr>))
        (1 / 2) ref_deposit = 3 / 2
   \<and> CalcIonAndScint (ref_calc (ref_SpaceCharge\<lparr>EnableSimEfieldSCE := True\<rparr>)
                     (ref_LArG4Parameters\<lparr>UseModBoxRecomb := False\<rparr>))
        ref_DetectorProperties ref_deposit
     = CalcIonAndScint (ref_calc ref_SpaceCharge (ref_LArG4Parameters\<lparr>UseModBoxRecomb := False\<rparr>))
        (ref_DetectorProperties\<lparr>Efield := 3 / 2\<rparr>) ref_deposit
   \<and> CalcIonAndScint (ref_calc (ref_SpaceCharge\<lparr>EnableSimEfieldSCE := True\<rparr>)
                     (ref_LArG4Parameters\<lparr>UseModBoxRecomb := False\<rparr>))
        ref_DetectorProperties ref_deposit
     = \<lparr> energy_deposit = Fin 2, numElectrons = Fin (1888617328 / 29155),
         numPhotons = Fin (10740981052 / 9475375),
         scintillationYieldRatio = Fin (27 / 100) \<rparr>"
proof -
  let ?g = "ref_LArG4Parameters\<lparr>UseModBoxRecomb := False\<rparr>"
  let ?off = "ref_calc ref_SpaceCharge ?g"
  let ?on = "ref_calc (ref_SpaceCharge\<lparr>EnableSimEfieldSCE := True\<rparr>) ?g"
  have s0: "\<not> EnableSimEfieldSCE (fSCE ?off)" and s1: "EnableSimEfieldSCE (fSCE ?on)"
    by (simp_all add: ref_defs)
  have o: "GetEfieldOffsets (fSCE ?on) (MidPoint ref_deposit) = \<lparr> X = 1, Y = 2, Z = 1 \<rparr>"
    by (simp add: ref_defs)
  have k: "?on\<lparr>fSCE := (fSCE ?on)\<lparr>EnableSimEfieldSCE := False\<rparr>\<rparr> = ?off"
    by (simp add: ref_defs)
  have d: "Efield ref_DetectorProperties = 1 / 2"
    by (simp add: ref_DetectorProperties_def)
  have v: "CalcIonAndScint ?on ref_DetectorProperties ref_deposit
     = \<lparr> energy_deposit = Fin 2, numElectrons = Fin (1888617328 / 29155),
         numPhotons = Fin (10740981052 / 9475375),
         scintillationYieldRatio = Fin (27 / 100) \<rparr>"
    by (simp add: calc_defs ref_defs Let_def sqrt_9)
  note on = effective_field_at_step [where c = ?on and efield = "1 / 2"
      and edep = ref_deposit and detProp = ref_DetectorProperties]
  note off = effective_field_at_step [where c = ?off and efield = "1 / 2"
      and edep = ref_deposit and detProp = ref_DetectorProperties]
  have e0: "EFieldAtStep ?off (1 / 2) ref_deposit = 1 / 2"
    using off s0 by blast
  have e1: "EFieldAtStep ?on (1 / 2) ref_deposit = 3 / 2"
    using on s1 by (simp add: o sqrt_9)
  have "CalcIonAndScint ?on ref_DetectorProperties ref_deposit
          = CalcIonAndScint (?on\<lparr>fSCE := (fSCE ?on)\<lparr>EnableSimEfieldSCE := False\<rparr>\<rparr>)
              (ref_DetectorProperties
                 \<lparr>Efield := EFieldAtStep ?on (Efield ref_DetectorProperties) ref_deposit\<rparr>)
              ref_deposit"
    using on by blast
  then have c: "CalcIonAndScint ?on ref_DetectorProperties ref_deposit
          = CalcIonAndScint ?off (ref_DetectorProperties\<lparr>Efield := 3 / 2\<rparr>) ref_deposit"
    unfolding k d e1 .
  show ?thesis
    using s0 e0 s1 e1 c v by blast
qed


section \<open>The scintillation yield ratio\<close>

text \<open>
  C8: the yield-ratio lookup is a total function of the per-particle-type toggle and the
  particle code. With the toggle off it returns the global ratio. With the toggle on it
  returns the proton ratio for 2212, the muon ratio for 13 and -13, the pion ratio for 211
  and -211, the kaon ratio for 321 and -321, the alpha ratio for 1000020040, the electron
  ratio for 11, -11 and 22, and the electron ratio for every other code.
\<close>

theorem yield_ratio_lookup:
  "(\<not> ScintByParticleType (fLArProp c) \<longrightarrow>
      GetScintYieldRatio c edep = ScintYieldRatio (fLArProp c))
   \<and> (ScintByParticleType (fLArProp c) \<longrightarrow>
        (PdgCode edep = 2212 \<longrightarrow>
           GetScintYieldRatio c edep = ProtonScintYieldRatio (fLArProp c))
      \<and> (PdgCode edep \<in> {13, - 13} \<longrightarrow>
           GetScintYieldRatio c edep = MuonScintYieldRatio (fLArProp c))
      \<and> (PdgCode edep \<in> {211, - 211} \<longrightarrow>
           GetScintYieldRatio c edep = PionScintYieldRatio (fLArProp c))
      \<and> (PdgCode edep \<in> {321, - 321} \<longrightarrow>
           GetScintYieldRatio c edep = KaonScintYieldRatio (fLArProp c))
      \<and> (PdgCode edep = 1000020040 \<longrightarrow>
           GetScintYieldRatio c edep = AlphaScintYieldRatio (fLArProp c))
      \<and> (PdgCode edep \<in> {11, - 11, 22} \<longrightarrow>
           GetScintYieldRatio c edep = ElectronScintYieldRatio (fLArProp c))
      \<and> (PdgCode edep \<notin> {2212, 13, - 13, 211, - 211, 321, - 321, 1000020040} \<longrightarrow>
           GetScintYieldRatio c edep = ElectronScintYieldRatio (fLArProp c)))"
  by (auto simp: GetScintYieldRatio_def Let_def)

theorem yield_ratio_lookup_witness:
  "ScintByParticleType (fLArProp (ref_calc ref_SpaceCharge ref_LArG4Parameters))
   \<and> GetScintYieldRatio (ref_calc ref_SpaceCharge ref_LArG4Parameters)
        (ref_deposit\<lparr>PdgCode := 2212\<rparr>) = 29 / 100
   \<and> GetScintYieldRatio (ref_calc ref_SpaceCharge ref_LArG4Parameters)
        (ref_deposit\<lparr>PdgCode := - 13\<rparr>) = 23 / 100
   \<and> GetScintYieldRatio (ref_calc ref_SpaceCharge ref_LArG4Parameters)
        (ref_deposit\<lparr>PdgCode := 211\<rparr>) = 24 / 100
   \<and> GetScintYieldRatio (ref_calc ref_SpaceCharge ref_LArG4Parameters)
        (ref_deposit\<lparr>PdgCode := - 321\<rparr>) = 25 / 100
   \<and> GetScintYieldRatio (ref_calc ref_SpaceCharge ref_LArG4Parameters)
        (ref_deposit\<lparr>PdgCode := 1000020040\<rparr>) = 56 / 100
   \<and> GetScintYieldRatio (ref_calc ref_SpaceCharge ref_LArG4Parameters)
        (ref_deposit\<lparr>PdgCode := 22\<rparr>) = 27 / 100
   \<and> (999999::int) \<notin> {2212, 13, - 13, 211, - 211, 321, - 321, 1000020040}
   \<and> GetScintYieldRatio (ref_calc ref_SpaceCharge ref_LArG4Parameters)
        (ref_deposit\<lparr>PdgCode := 999999\<rparr>) = 27 / 100
   \<and> \<not> ScintByParticleType
         (fLArProp ((ref_calc ref_SpaceCharge ref_LArG4Parameters)
            \<lparr>fLArProp := ref_LArProperties\<lparr>ScintByParticleType := False\<rparr>\<rparr>))
   \<and> GetScintYieldRatio
        ((ref_calc ref_SpaceCharge ref_LArG4Parameters)
            \<lparr>fLArProp := ref_LArProperties\<lparr>ScintByParticleType := False\<rparr>\<rparr>)
        (ref_deposit\<lparr>PdgCode := 2212\<rparr>) = 3 / 10"
proof -
  let ?c = "ref_calc ref_SpaceCharge ref_LArG4Parameters"
  let ?coff = "?c\<lparr>fLArProp := ref_LArProperties\<lparr>ScintByParticleType := False\<rparr>\<rparr>"
  have p: "fLArProp ?c = ref_LArProperties"
    by (simp add: ref_calc_def ISCalcCorrelated_new_def)
  have t: "ScintByParticleType (fLArProp ?c)"
    unfolding p by (simp add: ref_LArProperties_def)
  have t0: "\<not> ScintByParticleType (fLArProp ?coff)"
    by simp
  show ?thesis
    using t t0
      yield_ratio_lookup [where c = ?c and edep = "ref_deposit\<lparr>PdgCode := 2212\<rparr>"]
      yield_ratio_lookup [where c = ?c and edep = "ref_deposit\<lparr>PdgCode := - 13\<rparr>"]
      yield_ratio_lookup [where c = ?c and edep = "ref_deposit\<lparr>PdgCode := 211\<rparr>"]
      yield_ratio_lookup [where c = ?c and edep = "ref_deposit\<lparr>PdgCode := - 321\<rparr>"]
      yield_ratio_lookup [where c = ?c and edep = "ref_deposit\<lparr>PdgCode := 1000020040\<rparr>"]
      yield_ratio_lookup [where c = ?c and edep = "ref_deposit\<lparr>PdgCode := 22\<rparr>"]
      yield_ratio_lookup [where c = ?c and edep = "ref_deposit\<lparr>PdgCode := 999999\<rparr>"]
      yield_ratio_lookup [where c = ?coff and edep = "ref_deposit\<lparr>PdgCode := 2212\<rparr>"]
    by (simp add: p ref_LArProperties_def)
qed


section \<open>Step lengths below zero\<close>

text \<open>
  C9: a deposit with a negative step length is treated as the same deposit with step
  length 0. The test is \<open>ds \<le> 0\<close>, so its energy loss per length is 0, then floored to 1;
  the Modified-Box branch for \<open>ds > 0\<close> is not taken; and the calculator returns the same
  result for both.
\<close>

theorem negative_step_as_zero_step:
  assumes "StepLength d1 < 0" and "StepLength d0 = 0"
    and "Energy d1 = Energy d0" and "MidPoint d1 = MidPoint d0" and "PdgCode d1 = PdgCode d0"
  shows "StepdEdx (Energy d1) (StepLength d1) = 1
       \<and> Recombination c (StepLength d1) dEdx E = Recombination c (StepLength d0) dEdx E
       \<and> CalcIonAndScint c detProp d1 = CalcIonAndScint c detProp d0"
proof -
  have a: "StepdEdx (Energy d1) (StepLength d1) = 1"
    using assms(1) by (simp add: StepdEdx_nonpos)
  have b: "StepdEdx (Energy d0) (StepLength d0) = 1"
    using assms(2) by (simp add: StepdEdx_nonpos)
  have r: "Recombination c (StepLength d1) x y = Recombination c (StepLength d0) x y" for x y
    using assms(1,2) by (simp add: Recombination_step_sign [of "StepLength d1" 0])
  have e: "EFieldAtStep c (Efield detProp) d1 = EFieldAtStep c (Efield detProp) d0"
    using assms(4) by (rule EFieldAtStep_cong)
  have y: "GetScintYieldRatio c d1 = GetScintYieldRatio c d0"
    using assms(5) by (simp add: GetScintYieldRatio_def)
  have "CalcIonAndScint c detProp d1 = CalcIonAndScint c detProp d0"
    unfolding CalcIonAndScint_unfold a b r e y by (simp only: assms(3))
  with a r show ?thesis by simp
qed

text \<open>
  Two runs on the reference deposit with step lengths -1 and 0. With Birks-style
  recombination both get the electrons of an energy loss of 1 MeV/cm; with Modified-Box
  recombination both get none.
\<close>

theorem negative_step_as_zero_step_witness:
  "StepLength (ref_deposit\<lparr>StepLength := - 1\<rparr>) < 0
   \<and> StepLength (ref_deposit\<lparr>StepLength := 0\<rparr>) = 0
   \<and> StepdEdx (Energy (ref_deposit\<lparr>StepLength := - 1\<rparr>))
        (StepLength (ref_deposit\<lparr>StepLength := - 1\<rparr>)) = 1
   \<and> CalcIonAndScint (ref_calc ref_SpaceCharge (ref_LArG4Parameters\<lparr>UseModBoxRecomb := False\<rparr>))
        ref_DetectorProperties (ref_deposit\<lparr>StepLength := - 1\<rparr>)
     = CalcIonAndScint (ref_calc ref_SpaceCharge (ref_LArG4Parameters\<lparr>UseModBoxRecomb := False\<rparr>))
        ref_DetectorProperties (ref_deposit\<lparr>StepLength := 0\<rparr>)
   \<and> CalcIonAndScint (ref_calc ref_SpaceCharge ref_LArG4Parameters)
        ref_DetectorProperties (ref_deposit\<lparr>StepLength := - 1\<rparr>)
     = CalcIonAndScint (ref_calc ref_SpaceCharge ref_LArG4Parameters)
        ref_DetectorProperties (ref_deposit\<lparr>StepLength := 0\<rparr>)
   \<and> CalcIonAndScint (ref_calc ref_SpaceCharge ref_LArG4Parameters)
        ref_DetectorProperties (ref_deposit\<lparr>StepLength := 0\<rparr>)
     = \<lparr> energy_deposit = Fin 2, numElectrons = Fin 0, numPhotons = Fin (40000 / 13),
         scintillationYieldRatio = Fin (27 / 100) \<rparr>"
proof -
  let ?d1 = "ref_deposit\<lparr>StepLength := - 1\<rparr>" and ?d0 = "ref_deposit\<lparr>StepLength := 0\<rparr>"
  have h: "StepLength ?d1 < 0" "StepLength ?d0 = 0" "Energy ?d1 = Energy ?d0"
    "MidPoint ?d1 = MidPoint ?d0" "PdgCode ?d1 = PdgCode ?d0"
    by simp_all
  have v: "CalcIonAndScint (ref_calc ref_SpaceCharge ref_LArG4Parameters)
        ref_DetectorProperties ?d0
     = \<lparr> energy_deposit = Fin 2, numElectrons = Fin 0, numPhotons = Fin (40000 / 13),
         scintillationYieldRatio = Fin (27 / 100) \<rparr>"
    by (simp add: calc_defs ref_defs Let_def)
  show ?thesis
    using h v
      negative_step_as_zero_step [OF h,
        where c = "ref_calc ref_SpaceCharge (ref_LArG4Parameters\<lparr>UseModBoxRecomb := False\<rparr>)"
        and detProp = ref_DetectorProperties and dEdx = "Fin 1" and E = "Fin (1 / 2)"]
      negative_step_as_zero_step [OF h,
        where c = "ref_calc ref_SpaceCharge ref_LArG4Parameters"
        and detProp = ref_DetectorProperties and dEdx = "Fin 1" and E = "Fin (1 / 2)"]
    by simp
qed


section \<open>The particle code and the counts\<close>

text \<open>
  C10: two deposits that agree on energy, step length and midpoint, whatever their
  particle codes, get the same energy, electron count and photon count: the result for
  one is the result for the other with the yield ratio replaced.
\<close>

theorem particle_code_noninterference:
  assumes "Energy d1 = Energy d2" and "StepLength d1 = StepLength d2"
    and "MidPoint d1 = MidPoint d2"
  shows "CalcIonAndScint c detProp d1 =
           (CalcIonAndScint c detProp d2)
             \<lparr>scintillationYieldRatio := Fin (GetScintYieldRatio c d1)\<rparr>
       \<and> (energy_deposit (CalcIonAndScint c detProp d1),
            numElectrons (CalcIonAndScint c detProp d1),
            numPhotons (CalcIonAndScint c detProp d1))
         = (energy_deposit (CalcIonAndScint c detProp d2),
            numElectrons (CalcIonAndScint c detProp d2),
            numPhotons (CalcIonAndScint c detProp d2))"
proof -
  have e: "EFieldAtStep c (Efield detProp) d1 = EFieldAtStep c (Efield detProp) d2"
    using assms(3) by (rule EFieldAtStep_cong)
  show ?thesis
    unfolding CalcIonAndScint_unfold e assms(1,2) by simp
qed

text \<open>An electron and a proton leaving the reference deposit: the yield ratios differ.\<close>

theorem particle_code_noninterference_witness:
  "Energy ref_deposit = Energy (ref_deposit\<lparr>PdgCode := 2212\<rparr>)
   \<and> StepLength ref_deposit = StepLength (ref_deposit\<lparr>PdgCode := 2212\<rparr>)
   \<and> MidPoint ref_deposit = MidPoint (ref_deposit\<lparr>PdgCode := 2212\<rparr>)
   \<and> PdgCode ref_deposit \<noteq> PdgCode (ref_deposit\<lparr>PdgCode := 2212\<rparr>)
   \<and> (energy_deposit (CalcIonAndScint (ref_calc ref_SpaceCharge ref_LArG4Parameters)
                         ref_DetectorProperties ref_deposit),
       numElectrons (CalcIonAndScint (ref_calc ref_SpaceCharge ref_LArG4Parameters)
                       ref_DetectorProperties ref_deposit),
       numPhotons (CalcIonAndScint (ref_calc ref_SpaceCharge ref_LArG4Parameters)
                     ref_DetectorProperties ref_deposit))
     = (energy_deposit (CalcIonAndScint (ref_calc ref_SpaceCharge ref_LArG4Parameters)
                         ref_DetectorProperties (ref_deposit\<lparr>PdgCode := 2212\<rparr>)),
        numElectrons (CalcIonAndScint (ref_calc ref_SpaceCharge ref_LArG4Parameters)
                        ref_DetectorProperties (ref_deposit\<lparr>PdgCode := 2212\<rparr>)),
        numPhotons (CalcIonAndScint (ref_calc ref_SpaceCharge ref_LArG4Parameters)
                      ref_DetectorProperties (ref_deposit\<lparr>PdgCode := 2212\<rparr>)))
   \<and> CalcIonAndScint (ref_calc ref_SpaceCharge ref_LArG4Parameters)
        ref_DetectorProperties (ref_deposit\<lparr>PdgCode := 2212\<rparr>)
     = \<lparr> energy_deposit = Fin 2,
         numElectrons = Fin (118038583 * ln (4286887 / 2785900) / 848),
         numPhotons = Fin ((4000000 / 13 - 354115749 * ln (4286887 / 2785900) / 848) / 100),
         scintillationYieldRatio = Fin (29 / 100) \<rparr>
   \<and> CalcIonAndScint (ref_calc ref_SpaceCharge ref_LArG4Parameters)
        ref_DetectorProperties ref_deposit
     = \<lparr> energy_deposit = Fin 2,
         numElectrons = Fin (118038583 * ln (4286887 / 2785900) / 848),
         numPhotons = Fin ((4000000 / 13 - 354115749 * ln (4286887 / 2785900) / 848) / 100),
         scintillationYieldRatio = Fin (27 / 100) \<rparr>"
proof -
  let ?c = "ref_calc ref_SpaceCharge ref_LArG4Parameters"
  let ?d2 = "ref_deposit\<lparr>PdgCode := 2212\<rparr>"
  have h: "Energy ref_deposit = Energy ?d2" "StepLength ref_deposit = StepLength ?d2"
    "MidPoint ref_deposit = MidPoint ?d2"
    by simp_all
  have p: "PdgCode ref_deposit \<noteq> PdgCode ?d2"
    by (simp add: ref_deposit_def)
  have v: "CalcIonAndScint ?c ref_DetectorProperties ?d2
     = \<lparr> energy_deposit = Fin 2,
         numElectrons = Fin (118038583 * ln (4286887 / 2785900) / 848),
         numPhotons = Fin ((4000000 / 13 - 354115749 * ln (4286887 / 2785900) / 848) / 100),
         scintillationYieldRatio = Fin (29 / 100) \<rparr>"
    by (simp add: calc_defs ref_defs Let_def)
  have y: "GetScintYieldRatio ?c ref_deposit = 27 / 100"
    by (simp add: GetScintYieldRatio_def ref_defs)
  note t = particle_code_noninterference [OF h, where c = ?c and detProp = ref_DetectorProperties]
  have w: "CalcIonAndScint ?c ref_DetectorProperties ref_deposit
     = \<lparr> energy_deposit = Fin 2,
         numElectrons = Fin (118038583 * ln (4286887 / 2785900) / 848),
         numPhotons = Fin ((4000000 / 13 - 354115749 * ln (4286887 / 2785900) / 848) / 100),
         scintillationYieldRatio = Fin (27 / 100) \<rparr>"
    using t unfolding v y by simp
  have q: "(energy_deposit (CalcIonAndScint ?c ref_DetectorProperties ref_deposit),
       numElectrons (CalcIonAndScint ?c ref_DetectorProperties ref_deposit),
       numPhotons (CalcIonAndScint ?c ref_DetectorProperties ref_deposit))
     = (energy_deposit (CalcIonAndScint ?c ref_DetectorProperties ?d2),
        numElectrons (CalcIonAndScint ?c ref_DetectorProperties ?d2),
        numPhotons (CalcIonAndScint ?c ref_DetectorProperties ?d2))"
    using t by blast
  show ?thesis
    using h p q v w by blast
qed

end
